theory Spec2Isabelle
  imports Main "HOL-Library.Sublist"
begin

section \<open>HTTP values\<close>

text \<open>
  A request is read only through \<open>req.URL.Path\<close>. A response writer is the state a
  handler mutates: its header map (\<open>http.Header\<close>, a map from a key to a list of values),
  the status once written, and the bytes written. \<open>ServeHTTP(w, req)\<close> becomes a function
  that takes the writer and returns it updated, or a panic.
\<close>

record request =
  URL_Path :: string

record response =
  Header :: "string \<rightharpoonup> string list"
  Status :: "nat option"
  Body :: string

datatype panic = Nil_dereference

type_synonym handler_func = "response \<Rightarrow> request \<Rightarrow> panic + response"

datatype log_entry = Log_Error string string | Log_Info string string

section \<open>router.go: the Config\<close>

text \<open>
  The fields of \<open>Config\<close> in the order of the source. An \<open>http.Handler\<close> is an interface
  value and may be nil: \<open>'h option\<close>. The three clients are opaque interface values
  (\<open>'c option\<close>). \<open>HealthCheckHandler\<close> is a func value, nil when \<open>None\<close>.
\<close>

record ('h, 'c) Config =
  HealthCheckHandler :: "handler_func option"
  AnalyticsHandler :: "'h option"
  AreaProfileEnabled :: bool
  AreaProfileHandler :: "'h option"
  DownloadHandler :: "'h option"
  DatasetHandler :: "'h option"
  DatasetClient :: "'c option"
  NewDatasetRoutingEnabled :: bool
  PrefixDatasetHandler :: "'h option"
  CookieHandler :: "'h option"
  FilterHandler :: "'h option"
  FilterFlexHandler :: "'h option"
  FilterClient :: "'c option"
  FeedbackHandler :: "'h option"
  ContentTypeByteLimit :: int
  ZebedeeClient :: "'c option"
  LegacySearchRedirectsEnabled :: bool
  DataAggregationPagesEnabled :: bool
  SearchRoutesEnabled :: bool
  SiteDomain :: string
  SearchHandler :: "'h option"
  RelCalHandler :: "'h option"
  RelCalEnabled :: bool
  RelCalRoutePrefix :: string
  UseNewReleaseCalendar :: bool
  HomepageHandler :: "'h option"
  BabbageHandler :: "'h option"
  CensusAtlasHandler :: "'h option"
  CensusAtlasEnabled :: bool
  DatasetFinderEnabled :: bool

section \<open>The route table\<close>

text \<open>
  The handlers that \<open>New\<close> registers are the Config's own handlers or the result of a
  constructor of another package applied to them (\<open>relcal.Handler\<close>,
  \<open>datasetType.Handler\<close>, \<open>redirects.DynamicRedirectHandler\<close>) or of the middleware
  \<open>allRoutes.Handler\<close> that the subrouter applies. Those packages are not part of the
  sources, so the table keeps each handler as the expression that built it.
\<close>

datatype ('h, 'c) mux_middleware =
  AllRoutes_Handler "string \<rightharpoonup> 'h option" "'c option" int

datatype ('h, 'c) target =
  Cfg "'h option"
| Relcal_Handler "'h option"
| DatasetType_Handler "'c option" "'c option" "'h option" "'h option"
| DynamicRedirectHandler string string
| Use "('h, 'c) mux_middleware" "('h, 'c) target"

datatype matcher =
  Path string
| PathPrefix string
| MatcherFunc "request \<Rightarrow> bool"

datatype ('h, 'c) route =
  Route matcher "('h, 'c) target"
| Subrouter matcher "('h, 'c) mux_middleware list" "('h, 'c) route list"

text \<open>
  \<open>hasFileExtMatcher\<close> and \<open>isKnownBabbageEndpointMatcher\<close> are functions of package
  router declared outside the given sources; \<open>New\<close> only registers them, so they are
  parameters here.
\<close>

record matchers =
  hasFileExtMatcher :: "request \<Rightarrow> bool"
  isKnownBabbageEndpointMatcher :: "request \<Rightarrow> bool"

definition handlers :: "('h, 'c) Config \<Rightarrow> (string \<rightharpoonup> 'h option)" where
  "handlers cfg =
     (let hs = [''dataset_landing_page'' \<mapsto> DatasetHandler cfg]
      in if NewDatasetRoutingEnabled cfg then hs(''dataset'' \<mapsto> PrefixDatasetHandler cfg) else hs)"

text \<open>The calls of \<open>router.Handle\<close>, \<open>router.MatcherFunc\<close> and the subrouter, in source order.\<close>

definition routes :: "matchers \<Rightarrow> ('h, 'c) Config \<Rightarrow> ('h, 'c) route list" where
  "routes M cfg =
     [Route (Path ''/'') (Cfg (HomepageHandler cfg))] @
     (if CensusAtlasEnabled cfg
      then [Route (Path ''/census/maps{uri:.*}'') (Cfg (CensusAtlasHandler cfg))] else []) @
     [Route (Path ''/census'') (Cfg (HomepageHandler cfg))] @
     (if DatasetFinderEnabled cfg
      then [Route (Path ''/census/find-a-dataset'') (Cfg (SearchHandler cfg))] else []) @
     [Route (Path ''/redir/{data:.*}'') (Cfg (AnalyticsHandler cfg)),
      Route (Path ''/download/{uri:.*}'') (Cfg (DownloadHandler cfg)),
      Route (Path ''/cookies{uri:.*}'') (Cfg (CookieHandler cfg)),
      Route (Path ''/datasets/{uri:.*}'') (Cfg (DatasetHandler cfg)),
      Route (Path ''/filters/{uri:.*}'')
        (DatasetType_Handler (FilterClient cfg) (DatasetClient cfg)
           (FilterHandler cfg) (FilterFlexHandler cfg)),
      Route (Path ''/filter-outputs/{uri:.*}'') (Cfg (FilterHandler cfg)),
      Route (Path ''/feedback{uri:.*}'') (Cfg (FeedbackHandler cfg))] @
     (if LegacySearchRedirectsEnabled cfg
      then [Route (Path ''/searchdata'') (DynamicRedirectHandler ''/searchdata'' ''/search''),
            Route (Path ''/searchpublication'')
              (DynamicRedirectHandler ''/searchpublication'' ''/search'')]
      else []) @
     (if SearchRoutesEnabled cfg
      then (if DataAggregationPagesEnabled cfg
            then [Route (Path ''/alladhocs'') (Cfg (SearchHandler cfg)),
                  Route (Path ''/datalist'') (Cfg (SearchHandler cfg)),
                  Route (Path ''/allmethodologies'') (Cfg (SearchHandler cfg)),
                  Route (Path ''/publishedrequests'') (Cfg (SearchHandler cfg)),
                  Route (Path ''/staticlist'') (Cfg (SearchHandler cfg)),
                  Route (Path ''/publications'') (Cfg (SearchHandler cfg)),
                  Route (Path ''/topicspecificmethodology'') (Cfg (SearchHandler cfg)),
                  Route (Path ''/timeseriestool'') (Cfg (SearchHandler cfg))]
            else []) @
           [Route (Path ''/search'') (Cfg (SearchHandler cfg))]
      else []) @
     (if RelCalEnabled cfg
      then (if UseNewReleaseCalendar cfg
            then [Route (Path (RelCalRoutePrefix cfg @ ''/releasecalendar''))
                    (Relcal_Handler (RelCalHandler cfg)),
                  Route (Path (RelCalRoutePrefix cfg @ ''/releases/{uri:.*}''))
                    (Relcal_Handler (RelCalHandler cfg))]
            else [Route (Path (RelCalRoutePrefix cfg @ ''/releasecalendar''))
                    (Relcal_Handler (BabbageHandler cfg)),
                  Route (Path (RelCalRoutePrefix cfg @ ''/releases/{uri:.*}''))
                    (Relcal_Handler (BabbageHandler cfg))]) @
           [Route (Path (RelCalRoutePrefix cfg @ ''/calendar/releasecalendar''))
              (Cfg (RelCalHandler cfg))]
      else []) @
     [Route (MatcherFunc (hasFileExtMatcher M)) (Cfg (BabbageHandler cfg)),
      Route (MatcherFunc (isKnownBabbageEndpointMatcher M)) (Cfg (BabbageHandler cfg)),
      Subrouter (PathPrefix ''/'')
        [AllRoutes_Handler (handlers cfg) (ZebedeeClient cfg) (ContentTypeByteLimit cfg)]
        [Route (PathPrefix ''/'') (Cfg (BabbageHandler cfg))]]"

section \<open>Matching a request against the table\<close>

text \<open>
  A path template of gorilla/mux, for the two shapes that \<open>New\<close> registers: a literal
  path, matched exactly, and a literal followed by one variable \<open>{uri:.*}\<close> or
  \<open>{data:.*}\<close> at its end, compiled to the anchored pattern \<open>^literal(.*)$\<close>, where
  \<open>.\<close> is any character but a line feed. \<open>RelCalRoutePrefix\<close> is read as a literal
  prefix: a template of any other shape, which only a prefix holding a brace can give,
  is outside this model and matches nothing here.
\<close>

definition tpl_match :: "string \<Rightarrow> string \<Rightarrow> bool" where
  "tpl_match tpl p =
     (let lit = takeWhile (\<lambda>c. c \<noteq> CHR ''{'') tpl;
          var = dropWhile (\<lambda>c. c \<noteq> CHR ''{'') tpl
      in if var = [] then p = tpl
         else if var = ''{uri:.*}'' \<or> var = ''{data:.*}''
         then prefix lit p \<and> CHR 0x0A \<notin> set (drop (length lit) p)
         else False)"

fun matcher_Match :: "matcher \<Rightarrow> request \<Rightarrow> bool" where
  "matcher_Match (Path tpl) req = tpl_match tpl (URL_Path req)"
| "matcher_Match (PathPrefix tpl) req = prefix tpl (URL_Path req)"
| "matcher_Match (MatcherFunc f) req = f req"

text \<open>
  \<open>Router.Match\<close>: the routes are tried in the order of their registration and the
  first one whose matchers all accept the request gives the handler. A subrouter is a
  matcher of its route; the middlewares of the router in which the route was found wrap
  the handler, the first one outermost. \<open>None\<close> is mux's not-found.
\<close>

fun Route_Match :: "('h, 'c) route \<Rightarrow> request \<Rightarrow> ('h, 'c) target option"
  and Router_Match :: "('h, 'c) route list \<Rightarrow> request \<Rightarrow> ('h, 'c) target option" where
  "Route_Match (Route m t) req = (if matcher_Match m req then Some t else None)"
| "Route_Match (Subrouter m mws rs) req =
     (if matcher_Match m req
      then (case Router_Match rs req of None \<Rightarrow> None | Some t \<Rightarrow> Some (foldr Use mws t))
      else None)"
| "Router_Match [] req = None"
| "Router_Match (r # rs) req =
     (case Route_Match r req of Some t \<Rightarrow> Some t | None \<Rightarrow> Router_Match rs req)"



fun route_matcher :: "('h, 'c) route \<Rightarrow> matcher" where
  "route_matcher (Route m t) = m"
| "route_matcher (Subrouter m mws rs) = m"

text \<open>The handler that the table binds to a template: that of the first route registered with it.\<close>

fun bound :: "('h, 'c) route list \<Rightarrow> string \<Rightarrow> ('h, 'c) target option" where
  "bound [] tpl = None"
| "bound (Route m t # rs) tpl = (if m = Path tpl then Some t else bound rs tpl)"
| "bound (Subrouter m mws sub # rs) tpl = bound rs tpl"

section \<open>The middleware of router.go\<close>

definition HTTPHeaderKeyXFrameOptions :: string where
  "HTTPHeaderKeyXFrameOptions = ''X-Frame-Options''"

text \<open>\<open>w.Header().Set(key, value)\<close>: the key's values are replaced by the one value.\<close>

definition Header_Set :: "string \<Rightarrow> string \<Rightarrow> response \<Rightarrow> response" where
  "Header_Set k v w = w\<lparr>Header := (Header w)(k \<mapsto> [v])\<rparr>"

definition SecurityHandler :: "handler_func \<Rightarrow> handler_func" where
  "SecurityHandler h = (\<lambda>w req.
     if URL_Path req \<noteq> ''/embed'' \<and>
        \<not> prefix ''/visualisations/'' (URL_Path req) \<and>
        \<not> prefix ''/census/maps/'' (URL_Path req)
     then h (Header_Set HTTPHeaderKeyXFrameOptions ''SAMEORIGIN'' w) req
     else h w req)"

text \<open>Calling a nil func value panics; the call of \<open>hc\<close> happens only for \<open>/health\<close>.\<close>

definition healthcheckHandler :: "handler_func option \<Rightarrow> handler_func \<Rightarrow> handler_func" where
  "healthcheckHandler hc h = (\<lambda>w req.
     if URL_Path req = ''/health''
     then (case hc of None \<Rightarrow> Inl Nil_dereference | Some f \<Rightarrow> f w req)
     else h w req)"

text \<open>
  The constructors handed to \<open>alice.New\<close>. Two are defined in router.go; the others come
  from other packages and are interpreted by a parameter.
\<close>

datatype stage =
  HandlerRequestID nat
| Log_Middleware
| Security
| Healthcheck "handler_func option"
| Redirects_Handler
| Otelhttp_NewMiddleware string

fun constructor :: "(stage \<Rightarrow> handler_func \<Rightarrow> handler_func) \<Rightarrow> stage \<Rightarrow> handler_func \<Rightarrow> handler_func" where
  "constructor ext Security = SecurityHandler"
| "constructor ext (Healthcheck hc) = healthcheckHandler hc"
| "constructor ext s = ext s"

text \<open>\<open>alice.New(c1, ..., cn).Then(h)\<close> is \<open>c1(...(cn(h)))\<close>.\<close>

definition alice_Then :: "(stage \<Rightarrow> handler_func \<Rightarrow> handler_func) \<Rightarrow> stage list \<Rightarrow> handler_func \<Rightarrow> handler_func" where
  "alice_Then ext cs h = foldr (constructor ext) cs h"

section \<open>router.New\<close>

text \<open>
  \<open>config.Get()\<close> reads the process-wide configuration; its declaration is not among the
  sources, so its result is a parameter: the pointer (nil when \<open>None\<close>) and the error.
  \<open>New\<close> logs the error and goes on; reading \<open>appConfig.OtelEnabled\<close> through a nil
  pointer is the one place where \<open>New\<close> itself can panic.
\<close>

record AppConfig =
  OtelEnabled :: bool

record ('h, 'c) built =
  middleware :: "stage list"
  router :: "('h, 'c) route list"

definition New :: "matchers \<Rightarrow> AppConfig option \<times> string option \<Rightarrow> ('h, 'c) Config
    \<Rightarrow> log_entry list \<times> (panic + ('h, 'c) built)" where
  "New M config_Get cfg =
     (let mw = [HandlerRequestID 16, Log_Middleware, Security,
                Healthcheck (HealthCheckHandler cfg), Redirects_Handler];
          (appConfig, err) = config_Get;
          logged = (case err of None \<Rightarrow> [] | Some e \<Rightarrow> [Log_Error ''error getting config'' e])
      in case appConfig of
           None \<Rightarrow> (logged, Inl Nil_dereference)
         | Some ac \<Rightarrow>
             (logged,
              Inr \<lparr>middleware = (if OtelEnabled ac
                                 then mw @ [Otelhttp_NewMiddleware ''dp-frontend-router''] else mw),
                   router = routes M cfg\<rparr>))"

section \<open>analytics/backend_sqs.go\<close>


record SendMessageInput =
  MessageBody :: string
  QueueUrl :: string




record effects =
  sent :: "SendMessageInput list"
  logged :: "log_entry list"



section \<open>Concrete values\<close>

text \<open>
  A configuration with every flag off, every handler present and named by a string, and
  an empty release-calendar prefix; environments, a writer and a callback to run the
  definitions on.
\<close>

definition ok_handler :: "nat \<Rightarrow> handler_func" where
  "ok_handler code = (\<lambda>w req. Inr (w\<lparr>Status := Some code\<rparr>))"

definition example_Config :: "(string, string) Config" where
  "example_Config =
     \<lparr>HealthCheckHandler = Some (ok_handler 200),
      AnalyticsHandler = Some ''analytics'',
      AreaProfileEnabled = False,
      AreaProfileHandler = Some ''areaprofile'',
      DownloadHandler = Some ''download'',
      DatasetHandler = Some ''dataset'',
      DatasetClient = Some ''datasetclient'',
      NewDatasetRoutingEnabled = False,
      PrefixDatasetHandler = Some ''prefixdataset'',
      CookieHandler = Some ''cookie'',
      FilterHandler = Some ''filter'',
      FilterFlexHandler = Some ''filterflex'',
      FilterClient = Some ''filterclient'',
      FeedbackHandler = Some ''feedback'',
      ContentTypeByteLimit = 5000000,
      ZebedeeClient = Some ''zebedee'',
      LegacySearchRedirectsEnabled = False,
      DataAggregationPagesEnabled = False,
      SearchRoutesEnabled = False,
      SiteDomain = ''ons.gov.uk'',
      SearchHandler = Some ''search'',
      RelCalHandler = Some ''relcal'',
      RelCalEnabled = False,
      RelCalRoutePrefix = [],
      UseNewReleaseCalendar = False,
      HomepageHandler = Some ''homepage'',
      BabbageHandler = Some ''babbage'',
      CensusAtlasHandler = Some ''censusatlas'',
      CensusAtlasEnabled = False,
      DatasetFinderEnabled = False\<rparr>"

definition example_matchers :: matchers where
  "example_matchers =
     \<lparr>hasFileExtMatcher = (\<lambda>req. suffix ''.pdf'' (URL_Path req)),
      isKnownBabbageEndpointMatcher = (\<lambda>req. prefix ''/chartimage'' (URL_Path req))\<rparr>"

definition empty_response :: response where
  "empty_response = \<lparr>Header = Map.empty, Status = None, Body = []\<rparr>"




section \<open>Matching over a concatenation of routes\<close>



section \<open>The frame-options header\<close>

text \<open>
  Claim C5. For every request the security middleware sets \<open>X-Frame-Options: SAMEORIGIN\<close>
  on the writer before the next handler runs, except when the path is exactly \<open>/embed\<close>
  or starts with \<open>/visualisations/\<close> or \<open>/census/maps/\<close>; then the next handler gets
  the writer as it came.
\<close>

theorem SecurityHandler_sets_frame_options:
  "SecurityHandler h w req =
     (if URL_Path req = ''/embed'' \<or> prefix ''/visualisations/'' (URL_Path req)
         \<or> prefix ''/census/maps/'' (URL_Path req)
      then h w req
      else h (w\<lparr>Header := (Header w)(''X-Frame-Options'' \<mapsto> [''SAMEORIGIN''])\<rparr>) req)"
  by (simp add: SecurityHandler_def Header_Set_def HTTPHeaderKeyXFrameOptions_def)

theorem SecurityHandler_sets_frame_options_witness:
  "SecurityHandler (\<lambda>w req. Inr w) empty_response \<lparr>URL_Path = ''/economy''\<rparr>
     = Inr (empty_response\<lparr>Header := [''X-Frame-Options'' \<mapsto> [''SAMEORIGIN'']]\<rparr>) \<and>
   SecurityHandler (\<lambda>w req. Inr w) empty_response \<lparr>URL_Path = ''/embed''\<rparr>
     = Inr empty_response \<and>
   SecurityHandler (\<lambda>w req. Inr w) empty_response \<lparr>URL_Path = ''/visualisations/dvc1/index.html''\<rparr>
     = Inr empty_response \<and>
   SecurityHandler (\<lambda>w req. Inr w) empty_response \<lparr>URL_Path = ''/census/maps/choropleth''\<rparr>
     = Inr empty_response"
  using
    SecurityHandler_sets_frame_options [of "\<lambda>w req. Inr w" empty_response "\<lparr>URL_Path = ''/economy''\<rparr>"]
    SecurityHandler_sets_frame_options [of "\<lambda>w req. Inr w" empty_response "\<lparr>URL_Path = ''/embed''\<rparr>"]
    SecurityHandler_sets_frame_options [of "\<lambda>w req. Inr w" empty_response
      "\<lparr>URL_Path = ''/visualisations/dvc1/index.html''\<rparr>"]
    SecurityHandler_sets_frame_options [of "\<lambda>w req. Inr w" empty_response
      "\<lparr>URL_Path = ''/census/maps/choropleth''\<rparr>"]
  by (simp add: empty_response_def)

text \<open>
  Claim C10. The allow-list is an exact match for \<open>/embed\<close> and a prefix ending in a slash
  for the two others: the paths \<open>/visualisations\<close> and \<open>/census/maps\<close> themselves and
  every path under \<open>/embed/\<close> do get the header.
\<close>

theorem allow_list_exact_and_slash_prefix:
  "URL_Path req = ''/visualisations'' \<or> URL_Path req = ''/census/maps'' \<or>
   prefix ''/embed/'' (URL_Path req) \<Longrightarrow>
   SecurityHandler h w req =
     h (w\<lparr>Header := (Header w)(''X-Frame-Options'' \<mapsto> [''SAMEORIGIN''])\<rparr>) req"
  by (auto simp add: SecurityHandler_def Header_Set_def HTTPHeaderKeyXFrameOptions_def prefix_def)

theorem allow_list_exact_and_slash_prefix_witness:
  "SecurityHandler (\<lambda>w req. Inr w) empty_response \<lparr>URL_Path = ''/visualisations''\<rparr>
     = Inr (empty_response\<lparr>Header := [''X-Frame-Options'' \<mapsto> [''SAMEORIGIN'']]\<rparr>) \<and>
   SecurityHandler (\<lambda>w req. Inr w) empty_response \<lparr>URL_Path = ''/census/maps''\<rparr>
     = Inr (empty_response\<lparr>Header := [''X-Frame-Options'' \<mapsto> [''SAMEORIGIN'']]\<rparr>) \<and>
   SecurityHandler (\<lambda>w req. Inr w) empty_response \<lparr>URL_Path = ''/embed/x''\<rparr>
     = Inr (empty_response\<lparr>Header := [''X-Frame-Options'' \<mapsto> [''SAMEORIGIN'']]\<rparr>)"
  using
    allow_list_exact_and_slash_prefix [of "\<lparr>URL_Path = ''/visualisations''\<rparr>" "\<lambda>w req. Inr w" empty_response]
    allow_list_exact_and_slash_prefix [of "\<lparr>URL_Path = ''/census/maps''\<rparr>" "\<lambda>w req. Inr w" empty_response]
    allow_list_exact_and_slash_prefix [of "\<lparr>URL_Path = ''/embed/x''\<rparr>" "\<lambda>w req. Inr w" empty_response]
  by (simp add: empty_response_def)

section \<open>The health check\<close>

text \<open>
  Claim C8. For a request whose path is exactly \<open>/health\<close> the health-check middleware
  calls the supplied callback and the next handler is not run: the result is the
  callback's, whatever the next handler is. In the chain that \<open>New\<close> builds the stage
  stands fourth, before the redirects, the tracing and the router, for every Config
  and every reading of the global configuration, so such a request reaches neither the
  route table nor the classification. A request with any other path is handed with the
  same writer to the next handler.
\<close>

theorem health_short_circuit:
  "(URL_Path req = ''/health'' \<longrightarrow> healthcheckHandler (Some hc) h w req = hc w req) \<and>
   (URL_Path req \<noteq> ''/health'' \<longrightarrow> healthcheckHandler hc' h w req = h w req) \<and>
   (New M (Some ac, err) cfg = (lg, Inr b) \<and> HealthCheckHandler cfg = Some hc \<and>
    URL_Path req = ''/health'' \<longrightarrow>
      take 4 (middleware b) = [HandlerRequestID 16, Log_Middleware, Security, Healthcheck (Some hc)] \<and>
      alice_Then ext (drop 3 (middleware b)) rt w req = hc w req)"
  by (auto simp add: healthcheckHandler_def New_def alice_Then_def Let_def split: option.splits)

theorem health_short_circuit_witness:
  "healthcheckHandler (Some (ok_handler 200)) (ok_handler 404) empty_response \<lparr>URL_Path = ''/health''\<rparr>
     = Inr (empty_response\<lparr>Status := Some 200\<rparr>) \<and>
   healthcheckHandler (Some (ok_handler 200)) (ok_handler 404) empty_response \<lparr>URL_Path = ''/economy''\<rparr>
     = Inr (empty_response\<lparr>Status := Some 404\<rparr>) \<and>
   alice_Then (\<lambda>s h. h)
     (drop 3 [HandlerRequestID 16, Log_Middleware, Security, Healthcheck (Some (ok_handler 200)),
              Redirects_Handler, Otelhttp_NewMiddleware ''dp-frontend-router''])
     (ok_handler 404) empty_response \<lparr>URL_Path = ''/health''\<rparr>
     = Inr (empty_response\<lparr>Status := Some 200\<rparr>)"
  using
    health_short_circuit [where req = "\<lparr>URL_Path = ''/health''\<rparr>" and hc = "ok_handler 200"
      and h = "ok_handler 404" and w = empty_response and hc' = "Some (ok_handler 200)"
      and M = example_matchers and ac = "\<lparr>OtelEnabled = True\<rparr>" and err = None
      and cfg = example_Config and lg = "[]"
      and b = "\<lparr>middleware = [HandlerRequestID 16, Log_Middleware, Security,
                  Healthcheck (Some (ok_handler 200)), Redirects_Handler,
                  Otelhttp_NewMiddleware ''dp-frontend-router''],
               router = routes example_matchers example_Config\<rparr>"
      and ext = "\<lambda>s h. h" and rt = "ok_handler 404"]
    health_short_circuit [where req = "\<lparr>URL_Path = ''/economy''\<rparr>" and hc = "ok_handler 200"
      and h = "ok_handler 404" and w = empty_response and hc' = "Some (ok_handler 200)"]
  by (simp add: New_def Let_def example_Config_def ok_handler_def)

section \<open>The routes of the table\<close>

text \<open>
  Claim C9. The path \<open>/census\<close> is registered with the homepage handler, the handler of
  \<open>/\<close>, whatever the flags are: the routes registered before \<open>/redir/\<close> are \<open>/\<close>, then
  \<open>/census/maps...\<close> only when CensusAtlasEnabled, then \<open>/census\<close>, then
  \<open>/census/find-a-dataset\<close> only when DatasetFinderEnabled, and a request for
  \<open>/census\<close> resolves to the homepage handler under every Config.
\<close>

theorem census_unconditional:
  "takeWhile (\<lambda>r. route_matcher r \<noteq> Path ''/redir/{data:.*}'') (routes M cfg) =
     [Route (Path ''/'') (Cfg (HomepageHandler cfg))] @
     (if CensusAtlasEnabled cfg
      then [Route (Path ''/census/maps{uri:.*}'') (Cfg (CensusAtlasHandler cfg))] else []) @
     [Route (Path ''/census'') (Cfg (HomepageHandler cfg))] @
     (if DatasetFinderEnabled cfg
      then [Route (Path ''/census/find-a-dataset'') (Cfg (SearchHandler cfg))] else []) \<and>
   Router_Match (routes M cfg) \<lparr>URL_Path = ''/census''\<rparr> = Some (Cfg (HomepageHandler cfg)) \<and>
   Router_Match (routes M cfg) \<lparr>URL_Path = ''/''\<rparr> = Some (Cfg (HomepageHandler cfg))"
  by (simp add: routes_def tpl_match_def)

theorem census_unconditional_witness:
  "Router_Match
     (routes example_matchers (example_Config\<lparr>CensusAtlasEnabled := True, DatasetFinderEnabled := True\<rparr>))
     \<lparr>URL_Path = ''/census''\<rparr> = Some (Cfg (Some ''homepage'')) \<and>
   Router_Match (routes example_matchers example_Config) \<lparr>URL_Path = ''/census''\<rparr>
     = Some (Cfg (Some ''homepage'')) \<and>
   takeWhile (\<lambda>r. route_matcher r \<noteq> Path ''/redir/{data:.*}'') (routes example_matchers example_Config)
     = [Route (Path ''/'') (Cfg (Some ''homepage'')), Route (Path ''/census'') (Cfg (Some ''homepage''))]"
  using
    census_unconditional [of example_matchers
      "example_Config\<lparr>CensusAtlasEnabled := True, DatasetFinderEnabled := True\<rparr>"]
    census_unconditional [of example_matchers example_Config]
  by (simp add: example_Config_def)

text \<open>
  Claim C1. With RelCalEnabled set, \<open>New\<close> registers the alias
  \<open>{prefix}/calendar/releasecalendar\<close> with \<open>cfg.RelCalHandler\<close>, not with the Babbage
  handler, under both values of UseNewReleaseCalendar. With UseNewReleaseCalendar off the
  two neighbouring routes go to \<open>relcal.Handler(cfg.BabbageHandler)\<close> while the alias
  still goes to the new release-calendar handler. The second flag does select between
  the two handlers for \<open>{prefix}/releasecalendar\<close> and \<open>{prefix}/releases/...\<close>.
\<close>

theorem calendar_alias_bound_to_RelCalHandler:
  "bound (routes example_matchers (example_Config\<lparr>RelCalEnabled := True\<rparr>))
       ''/calendar/releasecalendar''
     = Some (Cfg (Some ''relcal'')) \<and>
   Router_Match (routes example_matchers (example_Config\<lparr>RelCalEnabled := True\<rparr>))
       \<lparr>URL_Path = ''/calendar/releasecalendar''\<rparr>
     = Some (Cfg (Some ''relcal'')) \<and>
   BabbageHandler (example_Config\<lparr>RelCalEnabled := True\<rparr>) = Some ''babbage'' \<and>
   Router_Match (routes example_matchers (example_Config\<lparr>RelCalEnabled := True\<rparr>))
       \<lparr>URL_Path = ''/releasecalendar''\<rparr>
     = Some (Relcal_Handler (Some ''babbage'')) \<and>
   Router_Match (routes example_matchers (example_Config\<lparr>RelCalEnabled := True\<rparr>))
       \<lparr>URL_Path = ''/releases/gdp''\<rparr>
     = Some (Relcal_Handler (Some ''babbage'')) \<and>
   Router_Match
       (routes example_matchers (example_Config\<lparr>RelCalEnabled := True, UseNewReleaseCalendar := True\<rparr>))
       \<lparr>URL_Path = ''/releasecalendar''\<rparr>
     = Some (Relcal_Handler (Some ''relcal''))"
  by (simp add: routes_def example_Config_def tpl_match_def)





section \<open>Flags and the table\<close>




















section \<open>Construction\<close>

text \<open>
  Claim C3, as amended. The route table is a function of the Config (and of the two
  matcher functions) alone. The middleware chain also depends on \<open>OtelEnabled\<close> of the
  process-wide configuration that \<open>New\<close> reads with \<open>config.Get()\<close> while it builds
  the chain: two invocations with the same Config give the same table, and the same chain
  exactly when the two readings of \<open>OtelEnabled\<close> agree.
\<close>

theorem table_independent_of_global_config:
  "New M (Some a1, e1) cfg = (l1, Inr b1) \<and> New M (Some a2, e2) cfg = (l2, Inr b2) \<longrightarrow>
     router b1 = routes M cfg \<and> router b2 = routes M cfg \<and>
     (middleware b1 = middleware b2 \<longleftrightarrow> OtelEnabled a1 = OtelEnabled a2)"
  by (auto simp add: New_def Let_def split: option.splits)

theorem table_independent_of_global_config_witness:
  "\<exists>b1 b2.
     snd (New example_matchers (Some \<lparr>OtelEnabled = True\<rparr>, None) example_Config) = Inr b1 \<and>
     snd (New example_matchers (Some \<lparr>OtelEnabled = False\<rparr>, Some ''bad value'') example_Config) = Inr b2 \<and>
     router b1 = router b2 \<and> middleware b1 \<noteq> middleware b2"
proof -
  obtain l1 b1 where n1:
    "New example_matchers (Some \<lparr>OtelEnabled = True\<rparr>, None) example_Config = (l1, Inr b1)"
    by (simp add: New_def Let_def)
  obtain l2 b2 where n2:
    "New example_matchers (Some \<lparr>OtelEnabled = False\<rparr>, Some ''bad value'') example_Config = (l2, Inr b2)"
    by (simp add: New_def Let_def)
  from n1 n2
    table_independent_of_global_config [of example_matchers "\<lparr>OtelEnabled = True\<rparr>" None
      example_Config l1 b1 "\<lparr>OtelEnabled = False\<rparr>" "Some ''bad value''" l2 b2]
  have "router b1 = router b2 \<and> middleware b1 \<noteq> middleware b2" by simp
  with n1 n2 show ?thesis by simp
qed

text \<open>The claim as stated fails: the same Config under two readings of the global toggle.\<close>

theorem New_depends_on_global_config:
  "New example_matchers (Some \<lparr>OtelEnabled = True\<rparr>, None) example_Config \<noteq>
   New example_matchers (Some \<lparr>OtelEnabled = False\<rparr>, None) example_Config"
  by (simp add: New_def Let_def)

text \<open>
  Claim C2, as amended. \<open>New\<close> checks neither its handlers nor the outcome of the
  configuration load: whenever \<open>config.Get()\<close> hands back a configuration, with or
  without an error, construction completes for every Config, nil handlers included, and
  the error is only logged. What is missing shows per request: a nil health-check
  callback panics on \<open>/health\<close>, and a nil homepage handler is what the table gives for
  \<open>/\<close>.
\<close>

theorem New_validates_nothing:
  "(\<exists>b. snd (New M (Some ac, err) cfg) = Inr b \<and>
        Healthcheck (HealthCheckHandler cfg) \<in> set (middleware b) \<and> router b = routes M cfg) \<and>
   fst (New M (Some ac, err) cfg) =
     (case err of None \<Rightarrow> [] | Some e \<Rightarrow> [Log_Error ''error getting config'' e]) \<and>
   (HealthCheckHandler cfg = None \<and> URL_Path req = ''/health'' \<longrightarrow>
      healthcheckHandler (HealthCheckHandler cfg) h w req = Inl Nil_dereference) \<and>
   (HomepageHandler cfg = None \<longrightarrow>
      Router_Match (routes M cfg) \<lparr>URL_Path = ''/''\<rparr> = Some (Cfg None))"
  by (simp add: New_def Let_def healthcheckHandler_def routes_def tpl_match_def)

theorem New_validates_nothing_witness:
  "(\<exists>b. snd (New example_matchers (Some \<lparr>OtelEnabled = False\<rparr>, Some ''bad value'')
               (example_Config\<lparr>HealthCheckHandler := None, HomepageHandler := None\<rparr>)) = Inr b) \<and>
   healthcheckHandler None (ok_handler 404) empty_response \<lparr>URL_Path = ''/health''\<rparr>
     = Inl Nil_dereference \<and>
   Router_Match (routes example_matchers
       (example_Config\<lparr>HealthCheckHandler := None, HomepageHandler := None\<rparr>))
     \<lparr>URL_Path = ''/''\<rparr> = Some (Cfg None)"
  using
    New_validates_nothing [of example_matchers "\<lparr>OtelEnabled = False\<rparr>" "Some ''bad value''"
      "example_Config\<lparr>HealthCheckHandler := None, HomepageHandler := None\<rparr>"
      "\<lparr>URL_Path = ''/health''\<rparr>" "ok_handler 404" empty_response]
  by (auto simp add: example_Config_def)

text \<open>
  The claim as stated fails: a Config whose health-check callback and homepage handler are
  nil, with a configuration load that failed, is built without an abort, and the request
  for \<open>/health\<close> then panics in the chain.
\<close>

theorem nil_handler_not_startup_fatal:
  "snd (New example_matchers (Some \<lparr>OtelEnabled = False\<rparr>, Some ''bad value'')
         (example_Config\<lparr>HealthCheckHandler := None, HomepageHandler := None\<rparr>)) =
     Inr \<lparr>middleware = [HandlerRequestID 16, Log_Middleware, Security, Healthcheck None,
                         Redirects_Handler],
          router = routes example_matchers
                     (example_Config\<lparr>HealthCheckHandler := None, HomepageHandler := None\<rparr>)\<rparr> \<and>
   fst (New example_matchers (Some \<lparr>OtelEnabled = False\<rparr>, Some ''bad value'')
         (example_Config\<lparr>HealthCheckHandler := None, HomepageHandler := None\<rparr>)) =
     [Log_Error ''error getting config'' ''bad value''] \<and>
   alice_Then (\<lambda>s h. h)
     [HandlerRequestID 16, Log_Middleware, Security, Healthcheck None, Redirects_Handler]
     (ok_handler 404) empty_response \<lparr>URL_Path = ''/health''\<rparr> = Inl Nil_dereference \<and>
   Router_Match (routes example_matchers
       (example_Config\<lparr>HealthCheckHandler := None, HomepageHandler := None\<rparr>))
     \<lparr>URL_Path = ''/''\<rparr> = Some (Cfg None)"
  by (simp add: New_def Let_def alice_Then_def SecurityHandler_def healthcheckHandler_def
      routes_def tpl_match_def example_Config_def)

section \<open>The analytics sink\<close>



end
